theory Spec2Isabelle
  imports Complex_Main "HOL-Library.Monad_Syntax"
begin

section \<open>JavaScript values as the normalizer reads them\<close>

text \<open>
  The graph description handed to \<open>WorkflowCanvas\<close> is a parsed JSON value (the body of
  the planner's response, or the literal of \<open>loadSampleGraph\<close>). The embedding keeps the
  dynamic typing of the source: every raw property is a \<open>jsval\<close>. Numbers are the
  integer-valued ones (an id such as \<open>1\<close>), of a magnitude that JavaScript prints in
  plain decimal; strings are ASCII texts. An object is the list of its own properties,
  read with first-match lookup. The only exception this code can throw is a TypeError;
  a function that can throw has an \<open>option\<close> result, and \<open>None\<close> is the throw.
\<close>

datatype jsval =
    JUndefined
  | JNull
  | JBool bool
  | JNum int
  | JStr string
  | JArr "jsval list"
  | JObj "(string \<times> jsval) list"

text \<open>Truthiness, as \<open>||\<close>, \<open>&&\<close>, \<open>!\<close>, \<open>?:\<close> and \<open>if\<close> test it.\<close>

fun truthy :: "jsval \<Rightarrow> bool" where
  "truthy JUndefined = False"
| "truthy JNull = False"
| "truthy (JBool b) = b"
| "truthy (JNum i) = (i \<noteq> 0)"
| "truthy (JStr s) = (s \<noteq> [])"
| "truthy (JArr xs) = True"
| "truthy (JObj kvs) = True"

text \<open>\<open>a || b\<close> on values.\<close>

definition or_js :: "jsval \<Rightarrow> jsval \<Rightarrow> jsval" where
  "or_js a b = (if truthy a then a else b)"

definition nullish :: "jsval \<Rightarrow> bool" where
  "nullish v = (v = JUndefined \<or> v = JNull)"

text \<open>
  \<open>v.k\<close> for a value that is neither \<open>undefined\<close> nor \<open>null\<close>, and a property name
  \<open>k\<close> written in the source (\<open>workflows\<close>, \<open>nodes\<close>, \<open>type\<close>, \<open>label\<close>, ...). None of
  these names is a property of a string, number, boolean or array, or one inherited from
  \<open>Object.prototype\<close>, so only an object's own properties answer.
\<close>

fun field :: "jsval \<Rightarrow> string \<Rightarrow> jsval" where
  "field (JObj kvs) k = (case map_of kvs k of Some v \<Rightarrow> v | None \<Rightarrow> JUndefined)"
| "field v k = JUndefined"

text \<open>\<open>v.k\<close> in general: reading a property of \<open>undefined\<close> or \<open>null\<close> throws a TypeError,
  which is the only exception of this code; \<open>None\<close> stands for it.\<close>

definition get :: "jsval \<Rightarrow> string \<Rightarrow> jsval option" where
  "get v k = (if nullish v then None else Some (field v k))"

text \<open>\<open>v?.k\<close>: optional chaining answers \<open>undefined\<close> instead of throwing.\<close>

definition oget :: "jsval \<Rightarrow> string \<Rightarrow> jsval" where
  "oget v k = (if nullish v then JUndefined else field v k)"

text \<open>\<open>v[0]\<close> for a truthy \<open>v\<close>: the first element of an array, the first character of a
  string, the own property \<open>"0"\<close> of an object.\<close>

fun index0 :: "jsval \<Rightarrow> jsval" where
  "index0 (JArr xs) = (case xs of [] \<Rightarrow> JUndefined | x # _ \<Rightarrow> x)"
| "index0 (JStr s) = (case s of [] \<Rightarrow> JUndefined | c # _ \<Rightarrow> JStr [c])"
| "index0 (JObj kvs) = field (JObj kvs) ''0''"
| "index0 v = JUndefined"

subsection \<open>String coercion\<close>

fun digit_char :: "nat \<Rightarrow> char" where
  "digit_char n = (''0123456789'' ! (n mod 10))"

fun string_of_nat :: "nat \<Rightarrow> string" where
  "string_of_nat n =
     (if n < 10 then [digit_char n] else string_of_nat (n div 10) @ [digit_char n])"

declare string_of_nat.simps [simp del]

definition string_of_int :: "int \<Rightarrow> string" where
  "string_of_int i = (if i < 0 then CHR ''-'' # string_of_nat (nat (- i)) else string_of_nat (nat i))"

fun join_js :: "string list \<Rightarrow> string" where
  "join_js [] = []"
| "join_js [s] = s"
| "join_js (s # t # ss) = s @ CHR '','' # join_js (t # ss)"

fun sequence :: "'a option list \<Rightarrow> 'a list option" where
  "sequence [] = Some []"
| "sequence (x # xs) = do { v \<leftarrow> x; vs \<leftarrow> sequence xs; Some (v # vs) }"

text \<open>
  \<open>String(v)\<close>. An array is joined with commas, \<open>undefined\<close> and \<open>null\<close> elements
  giving the empty string. A parsed JSON object answers \<open>[object Object]\<close> through the
  inherited \<open>toString\<close>; when it has an own property \<open>toString\<close> (a JSON value, so not
  callable) the conversion to a primitive finds no usable method and throws.
\<close>

fun String_js :: "jsval \<Rightarrow> string option" where
  "String_js JUndefined = Some ''undefined''"
| "String_js JNull = Some ''null''"
| "String_js (JBool b) = Some (if b then ''true'' else ''false'')"
| "String_js (JNum i) = Some (string_of_int i)"
| "String_js (JStr s) = Some s"
| "String_js (JArr xs) =
     map_option join_js
       (sequence (map (\<lambda>x. if x = JUndefined \<or> x = JNull then Some [] else String_js x) xs))"
| "String_js (JObj kvs) =
     (if map_of kvs ''toString'' = None then Some ''[object Object]'' else None)"

definition toLowerCase :: "string \<Rightarrow> string" where
  "toLowerCase s =
     map (\<lambda>c. case map_of (zip ''ABCDEFGHIJKLMNOPQRSTUVWXYZ'' ''abcdefghijklmnopqrstuvwxyz'') c of
                 Some d \<Rightarrow> d | None \<Rightarrow> c) s"

definition toUpperCase :: "string \<Rightarrow> string" where
  "toUpperCase s =
     map (\<lambda>c. case map_of (zip ''abcdefghijklmnopqrstuvwxyz'' ''ABCDEFGHIJKLMNOPQRSTUVWXYZ'') c of
                 Some d \<Rightarrow> d | None \<Rightarrow> c) s"

section \<open>WorkflowCanvas.jsx: the node table\<close>

text \<open>
  \<open>nodeTypes\<close> is an object literal whose eleven own keys are all bound to the component
  \<open>CustomNode\<close>. The test \<open>nodeTypes[nodeType]\<close> is an ordinary property read: the key is
  the string form of \<open>nodeType\<close>, and a name inherited from \<open>Object.prototype\<close> answers
  with a function or object, which is truthy as well.
\<close>

definition nodeTypes :: "string list" where
  "nodeTypes = [''trigger'', ''action'', ''condition'', ''utility'', ''control'', ''http'',
     ''integration'', ''script'', ''log'', ''webhook'', ''default'']"

definition Object_prototype :: "string list" where
  "Object_prototype = [''constructor'', ''__defineGetter__'', ''__defineSetter__'',
     ''hasOwnProperty'', ''__lookupGetter__'', ''__lookupSetter__'', ''isPrototypeOf'',
     ''propertyIsEnumerable'', ''toString'', ''valueOf'', ''__proto__'', ''toLocaleString'']"

definition nodeTypes_at :: "string \<Rightarrow> bool" where
  "nodeTypes_at k = (k \<in> set nodeTypes \<or> k \<in> set Object_prototype)"

section \<open>WorkflowCanvas.jsx: normalization (the effect, lines 69 to 130)\<close>

record node_data =
  label :: jsval
  nodeType :: jsval
  config :: jsval
  params :: jsval
  integration_type_name :: jsval
  task :: jsval
  task_display_name :: jsval

record node =
  id_n :: string
  type_n :: jsval
  data_n :: node_data
  position_n :: jsval

record edge =
  id_e :: jsval
  source :: string
  target :: string
  sourceHandle :: jsval
  label_e :: jsval

text \<open>Lines 72 to 82: the two accepted shapes. The result is the pair
  \<open>(rawNodes, rawEdges)\<close>; \<open>graphData\<close> is truthy here (line 70).\<close>

definition select_raw :: "jsval \<Rightarrow> (jsval \<times> jsval) option" where
  "select_raw graphData =
     (if truthy (field graphData ''workflows'') \<and> truthy (index0 (field graphData ''workflows''))
      then do {
        let w = field (index0 (field graphData ''workflows'')) ''workflow_data'';
        ns \<leftarrow> get w ''nodes'';
        cs \<leftarrow> get w ''connections'';
        Some (or_js ns (JArr []), or_js cs (JArr []))
      }
      else Some (or_js (field graphData ''nodes'') (JArr []),
                 or_js (field graphData ''edges'') (JArr [])))"

text \<open>Lines 85 to 103, the callback of \<open>rawNodes.map\<close>.\<close>

definition normalize_node :: "jsval \<Rightarrow> node option" where
  "normalize_node n = do {
     t \<leftarrow> get n ''type'';
     let nodeType = or_js t (JStr ''default'');
     key \<leftarrow> String_js nodeType;
     let mappedType = (if nodeTypes_at key then nodeType else JStr ''default'');
     i \<leftarrow> String_js (field n ''id'');
     Some \<lparr> id_n = i,
            type_n = mappedType,
            data_n = \<lparr> label = or_js (field n ''label'')
                                (or_js (oget (field n ''data'') ''label'') (JStr ''Untitled'')),
                       nodeType = or_js (field n ''type'') (oget (field n ''data'') ''nodeType''),
                       config = or_js (field n ''config'')
                                 (or_js (oget (field n ''data'') ''config'') (JObj [])),
                       params = or_js (field n ''params'') (JObj []),
                       integration_type_name = field n ''integration_type_name'',
                       task = field n ''task'',
                       task_display_name = field n ''task_display_name'' \<rparr>,
            position_n = or_js (field n ''position'') (JObj [(''x'', JNum 0), (''y'', JNum 0)]) \<rparr>
   }"

text \<open>Line 110, and the same test at lines 34 and 46.\<close>

definition isDecision :: "node option \<Rightarrow> bool" where
  "isDecision sourceNode =
     (case sourceNode of
        None \<Rightarrow> False
      | Some n \<Rightarrow> nodeType (data_n n) = JStr ''condition'' \<or> type_n n = JStr ''control'')"

text \<open>Lines 112 to 121: the handle of an edge.\<close>

definition resolve_handle :: "bool \<Rightarrow> jsval \<Rightarrow> jsval option" where
  "resolve_handle dec e = do {
     h1 \<leftarrow> (if dec \<and> truthy (field e ''label'') then do {
              s \<leftarrow> String_js (field e ''label'');
              let labelLower = toLowerCase s;
              let h = (if labelLower = ''true'' then JStr ''true'' else field e ''sourceHandle'');
              Some (if labelLower = ''false'' then JStr ''false'' else h)
            } else Some (field e ''sourceHandle''));
     Some (if dec \<and> \<not> truthy h1 \<and> truthy (oget (field e ''condition'') ''value'')
           then field (field e ''condition'') ''value'' else h1)
   }"

text \<open>Lines 106 to 130, the callback of \<open>rawEdges.map\<close>, with the position \<open>idx\<close>.\<close>

definition process_edge :: "node list \<Rightarrow> nat \<Rightarrow> jsval \<Rightarrow> edge option" where
  "process_edge normalizedNodes idx e = do {
     s0 \<leftarrow> get e ''source'';
     src \<leftarrow> String_js (or_js s0 (field e ''from''));
     tgt \<leftarrow> String_js (or_js (field e ''target'') (field e ''to''));
     let sourceNode = find (\<lambda>n. id_n n = src) normalizedNodes;
     h \<leftarrow> resolve_handle (isDecision sourceNode) e;
     l \<leftarrow> (if truthy (field e ''label'') then Some (field e ''label'')
           else if truthy (oget (field e ''condition'') ''value'')
           then map_option (\<lambda>s. JStr (toUpperCase s))
                  (String_js (field (field e ''condition'') ''value''))
           else Some (JStr ''''));
     Some \<lparr> id_e = or_js (field e ''id'') (JStr (''e-'' @ string_of_nat idx)),
            source = src,
            target = tgt,
            sourceHandle = h,
            label_e = l \<rparr>
   }"

text \<open>\<open>xs.map(f)\<close> on a value: anything but an array has no callable \<open>map\<close>.\<close>

fun map_js :: "(nat \<Rightarrow> jsval \<Rightarrow> 'a option) \<Rightarrow> jsval \<Rightarrow> 'a list option" where
  "map_js f (JArr xs) = sequence (map (\<lambda>(i, x). f i x) (enumerate 0 xs))"
| "map_js f v = None"

definition normalize :: "jsval \<Rightarrow> (node list \<times> edge list) option" where
  "normalize graphData = do {
     (rawNodes, rawEdges) \<leftarrow> select_raw graphData;
     normalizedNodes \<leftarrow> map_js (\<lambda>i. normalize_node) rawNodes;
     processedEdges \<leftarrow> map_js (process_edge normalizedNodes) rawEdges;
     Some (normalizedNodes, processedEdges)
   }"

section \<open>WorkflowCanvas.jsx: getLayoutedElements (lines 21 to 62)\<close>

text \<open>
  The ranking itself is done by the library \<open>dagre\<close>, which is not part of this
  repository: it is a parameter, a function from the graph handed to \<open>dagre.layout\<close> to
  the centre it assigns to each node id.
\<close>

record dagre_graph =
  rankdir :: string
  ranksep :: int
  nodesep :: int
  g_nodes :: "(string \<times> int \<times> int) list"
  g_edges :: "(string \<times> string) list"

record positioned =
  id_p :: string
  type_p :: jsval
  data_p :: node_data
  targetPosition :: string
  sourcePosition :: string
  position_p :: "rat \<times> rat"

text \<open>Lines 34 and 46.\<close>

definition isDiamond :: "node \<Rightarrow> bool" where
  "isDiamond n = (nodeType (data_n n) = JStr ''condition'' \<or> type_n n = JStr ''control'')"

text \<open>Lines 35, 47 and 48: width and height.\<close>

definition footprint :: "node \<Rightarrow> int \<times> int" where
  "footprint n = (if isDiamond n then 300 else 250, if isDiamond n then 150 else 120)"

text \<open>Lines 22 to 40: the graph handed to \<open>dagre.layout\<close>.\<close>

definition dagreGraph :: "node list \<Rightarrow> edge list \<Rightarrow> string \<Rightarrow> dagre_graph" where
  "dagreGraph ns es direction =
     \<lparr> rankdir = direction, ranksep = 200, nodesep = 100,
       g_nodes = map (\<lambda>n. (id_n n, footprint n)) ns,
       g_edges = map (\<lambda>e. (source e, target e)) es \<rparr>"

text \<open>Lines 44 to 59: one positioned node; \<open>c\<close> is the centre that dagre assigned.\<close>

definition place :: "bool \<Rightarrow> rat \<times> rat \<Rightarrow> node \<Rightarrow> positioned" where
  "place isHorizontal c n =
     (let w = fst (footprint n); h = snd (footprint n)
      in \<lparr> id_p = id_n n, type_p = type_n n, data_p = data_n n,
           targetPosition = (if isHorizontal then ''left'' else ''top''),
           sourcePosition = (if isHorizontal then ''right'' else ''bottom''),
           position_p = (fst c - of_int w / 2, snd c - of_int h / 2) \<rparr>)"

definition getLayoutedElements ::
  "(dagre_graph \<Rightarrow> string \<Rightarrow> rat \<times> rat) \<Rightarrow> node list \<Rightarrow> edge list \<Rightarrow> string
     \<Rightarrow> positioned list \<times> edge list" where
  "getLayoutedElements dagre ns es direction =
     (let isHorizontal = (direction = ''LR'');
          layouted = dagre (dagreGraph ns es direction);
          layoutedNodes = map (\<lambda>n. place isHorizontal (layouted (id_n n)) n) ns
      in (layoutedNodes, es))"

text \<open>The effect of lines 69 to 140 on the component's state \<open>(nodes, edges)\<close>.\<close>

record canvas =
  nodes :: "positioned list"
  edges :: "edge list"

definition WorkflowCanvas_effect ::
  "(dagre_graph \<Rightarrow> string \<Rightarrow> rat \<times> rat) \<Rightarrow> jsval \<Rightarrow> canvas \<Rightarrow> canvas option" where
  "WorkflowCanvas_effect dagre graphData st =
     (if truthy graphData then do {
        (normalizedNodes, processedEdges) \<leftarrow> normalize graphData;
        let (layoutedNodes, layoutedEdges) =
              getLayoutedElements dagre normalizedNodes processedEdges ''LR'';
        Some \<lparr> nodes = layoutedNodes, edges = layoutedEdges \<rparr>
      } else Some st)"

section \<open>CustomNode.jsx: the source handles (lines 145 to 156)\<close>


section \<open>WorkflowConsole.jsx: downloadJson (lines 86 to 97)\<close>

text \<open>
  The value that the text \<open>JSON.stringify(v, null, 2)\<close> denotes, which is what a reader
  of the downloaded file parses: properties whose value is \<open>undefined\<close> are left out,
  and an \<open>undefined\<close> array element is written \<open>null\<close>.
\<close>

fun JSON_value :: "jsval \<Rightarrow> jsval" where
  "JSON_value (JArr xs) = JArr (map (\<lambda>x. if x = JUndefined then JNull else JSON_value x) xs)"
| "JSON_value (JObj kvs) =
     JObj (map (\<lambda>(k, v). (k, JSON_value v)) (filter (\<lambda>(k, v). v \<noteq> JUndefined) kvs))"
| "JSON_value v = v"

text \<open>The document offered for download; nothing is offered while there is no graph.\<close>

definition downloadJson :: "jsval \<Rightarrow> jsval option" where
  "downloadJson graphData = (if \<not> truthy graphData then None else Some (JSON_value graphData))"

text \<open>A value as a JSON parser produces it: no \<open>undefined\<close> anywhere.\<close>

fun is_json :: "jsval \<Rightarrow> bool" where
  "is_json JUndefined = False"
| "is_json (JArr xs) = list_all is_json xs"
| "is_json (JObj kvs) = list_all (\<lambda>(k, v). is_json v) kvs"
| "is_json v = True"

text \<open>The objects built at lines 89 to 102 and 123 to 129, and the pair of lists that
  \<open>getLayoutedElements\<close> receives, as values.\<close>

definition node_js :: "node \<Rightarrow> jsval" where
  "node_js n = JObj [
     (''id'', JStr (id_n n)),
     (''type'', type_n n),
     (''data'', JObj [
        (''label'', label (data_n n)),
        (''nodeType'', nodeType (data_n n)),
        (''config'', config (data_n n)),
        (''params'', params (data_n n)),
        (''integration_type_name'', integration_type_name (data_n n)),
        (''task'', task (data_n n)),
        (''task_display_name'', task_display_name (data_n n))]),
     (''position'', position_n n)]"

definition edge_js :: "edge \<Rightarrow> jsval" where
  "edge_js e = JObj [
     (''id'', id_e e),
     (''source'', JStr (source e)),
     (''target'', JStr (target e)),
     (''sourceHandle'', sourceHandle e),
     (''label'', label_e e)]"

definition graph_js :: "node list \<times> edge list \<Rightarrow> jsval" where
  "graph_js g = JObj [(''nodes'', JArr (map node_js (fst g))), (''edges'', JArr (map edge_js (snd g)))]"

section \<open>Sample inputs\<close>

text \<open>The node \<open>{id: 1, type: 'condition'}\<close> after normalization.\<close>

definition sample_condition :: node where
  "sample_condition =
     \<lparr> id_n = ''1'', type_n = JStr ''condition'',
       data_n = \<lparr> label = JStr ''Untitled'', nodeType = JStr ''condition'', config = JObj [],
                  params = JObj [], integration_type_name = JUndefined, task = JUndefined,
                  task_display_name = JUndefined \<rparr>,
       position_n = JObj [(''x'', JNum 0), (''y'', JNum 0)] \<rparr>"

text \<open>The node \<open>{id: 2, type: 'action'}\<close> after normalization.\<close>

definition sample_action :: node where
  "sample_action =
     \<lparr> id_n = ''2'', type_n = JStr ''action'',
       data_n = \<lparr> label = JStr ''Untitled'', nodeType = JStr ''action'', config = JObj [],
                  params = JObj [], integration_type_name = JUndefined, task = JUndefined,
                  task_display_name = JUndefined \<rparr>,
       position_n = JObj [(''x'', JNum 0), (''y'', JNum 0)] \<rparr>"

text \<open>A condition node, an action node and one edge between them that carries neither a
  handle nor a label nor a condition.\<close>

definition bare_edge :: jsval where
  "bare_edge = JObj [(''source'', JNum 1), (''target'', JNum 2)]"

definition sample_graph :: jsval where
  "sample_graph = JObj [
     (''nodes'', JArr [JObj [(''id'', JNum 1), (''type'', JStr ''condition'')],
                       JObj [(''id'', JNum 2), (''type'', JStr ''action'')]]),
     (''edges'', JArr [bare_edge])]"

definition bare_edge_out :: edge where
  "bare_edge_out = \<lparr> id_e = JStr ''e-0'', source = ''1'', target = ''2'',
     sourceHandle = JUndefined, label_e = JStr [] \<rparr>"

text \<open>A node in the internal format that has no \<open>type\<close> and says \<open>condition\<close> in
  \<open>data.nodeType\<close>.\<close>

definition tagless_condition :: jsval where
  "tagless_condition = JObj [(''id'', JStr ''1''), (''data'', JObj [(''nodeType'', JStr ''condition'')])]"

text \<open>An edge whose handle says \<open>true\<close> and whose label says \<open>False\<close>.\<close>

definition conflicting_edge :: jsval where
  "conflicting_edge = JObj [(''source'', JNum 1), (''target'', JNum 2),
     (''sourceHandle'', JStr ''true''), (''label'', JStr ''False'')]"

text \<open>An edge that gives both endpoint pairs, with the source id \<open>0\<close>.\<close>

definition both_pairs_edge :: jsval where
  "both_pairs_edge = JObj [(''source'', JNum 0), (''target'', JNum 1),
     (''from'', JNum 5), (''to'', JNum 6)]"

text \<open>An object with an empty \<open>workflows\<close> list beside simple-shape fields.\<close>

definition empty_workflows_graph :: jsval where
  "empty_workflows_graph = JObj [(''workflows'', JArr []),
     (''nodes'', JArr [JObj [(''id'', JNum 1)]]), (''edges'', JArr [])]"




text \<open>An edge from node \<open>1\<close> with the label \<open>True\<close> and no handle.\<close>

definition labelled_edge :: jsval where
  "labelled_edge = JObj [(''source'', JNum 1), (''target'', JNum 2), (''label'', JStr ''True'')]"

text \<open>A second node with the id \<open>1\<close>, of kind \<open>log\<close>.\<close>

definition duplicate_log :: node where
  "duplicate_log =
     \<lparr> id_n = ''1'', type_n = JStr ''log'',
       data_n = \<lparr> label = JStr ''Untitled'', nodeType = JStr ''log'', config = JObj [],
                  params = JObj [], integration_type_name = JUndefined, task = JUndefined,
                  task_display_name = JUndefined \<rparr>,
       position_n = JObj [(''x'', JNum 0), (''y'', JNum 0)] \<rparr>"

text \<open>An edge from the node with id \<open>0\<close> that gives only \<open>source\<close> and \<open>target\<close>.\<close>

definition zero_source_edge :: jsval where
  "zero_source_edge = JObj [(''source'', JNum 0), (''target'', JNum 1)]"

text \<open>The node \<open>{id: 1}\<close> after normalization.\<close>

definition untyped_node_1 :: node where
  "untyped_node_1 =
     \<lparr> id_n = ''1'', type_n = JStr ''default'',
       data_n = \<lparr> label = JStr ''Untitled'', nodeType = JUndefined, config = JObj [],
                  params = JObj [], integration_type_name = JUndefined, task = JUndefined,
                  task_display_name = JUndefined \<rparr>,
       position_n = JObj [(''x'', JNum 0), (''y'', JNum 0)] \<rparr>"

section \<open>A serialized canonical graph, read back\<close>

text \<open>What the normalizer reads back from a serialized canonical node: the node with
  \<open>data.nodeType\<close> replaced by the kind, the parameters emptied and the domain hints gone,
  since lines 94 and 96 to 99 read these from the top level of a raw node.\<close>

definition reread :: "node \<Rightarrow> node" where
  "reread n = n\<lparr> data_n := (data_n n)\<lparr> nodeType := type_n n, params := JObj [],
       integration_type_name := JUndefined, task := JUndefined, task_display_name := JUndefined \<rparr> \<rparr>"

text \<open>A value that is absent or a JSON value.\<close>

definition written :: "jsval \<Rightarrow> bool" where
  "written v = (v = JUndefined \<or> is_json v)"

text \<open>What normalization of a JSON graph guarantees of each node and edge it builds.\<close>

definition canonical_node :: "node \<Rightarrow> bool" where
  "canonical_node n =
     (truthy (type_n n) \<and> is_json (type_n n) \<and>
      (case String_js (type_n n) of None \<Rightarrow> False | Some key \<Rightarrow> nodeTypes_at key) \<and>
      truthy (label (data_n n)) \<and> is_json (label (data_n n)) \<and>
      truthy (config (data_n n)) \<and> is_json (config (data_n n)) \<and>
      truthy (params (data_n n)) \<and> is_json (params (data_n n)) \<and>
      truthy (position_n n) \<and> is_json (position_n n) \<and>
      written (nodeType (data_n n)) \<and> written (integration_type_name (data_n n)) \<and>
      written (task (data_n n)) \<and> written (task_display_name (data_n n)))"

definition canonical_edge :: "edge \<Rightarrow> bool" where
  "canonical_edge e =
     (truthy (id_e e) \<and> is_json (id_e e) \<and> is_json (label_e e) \<and>
      (truthy (label_e e) \<or> label_e e = JStr []) \<and> written (sourceHandle e))"

text \<open>A graph with one node that has parameters.\<close>

definition params_graph :: jsval where
  "params_graph = JObj [
     (''nodes'', JArr [JObj [(''id'', JNum 1), (''type'', JStr ''action''),
                             (''params'', JObj [(''a'', JNum 1)])]]),
     (''edges'', JArr [])]"

section \<open>Basic facts\<close>

lemmas run_defs = normalize_def select_raw_def get_def nullish_def or_js_def oget_def
  process_edge_def resolve_handle_def isDecision_def normalize_node_def nodeTypes_at_def
  nodeTypes_def Object_prototype_def string_of_int_def toLowerCase_def toUpperCase_def Let_def
  string_of_nat.simps

lemma normalize_node_sample_condition:
  "normalize_node (JObj [(''id'', JNum 1), (''type'', JStr ''condition'')]) = Some sample_condition"
  by (simp add: sample_condition_def run_defs)

lemma process_edge_SomeD:
  assumes "process_edge ns idx e = Some e'"
  shows "\<not> nullish e"
    and "String_js (or_js (field e ''source'') (field e ''from'')) = Some (source e')"
    and "String_js (or_js (field e ''target'') (field e ''to'')) = Some (target e')"
    and "resolve_handle (isDecision (find (\<lambda>n. id_n n = source e') ns)) e = Some (sourceHandle e')"
    and "id_e e' = or_js (field e ''id'') (JStr (''e-'' @ string_of_nat idx))"
proof -
  from assms obtain s0 src tgt h l where
    a: "get e ''source'' = Some s0"
    and b: "String_js (or_js s0 (field e ''from'')) = Some src"
    and c: "String_js (or_js (field e ''target'') (field e ''to'')) = Some tgt"
    and d: "resolve_handle (isDecision (find (\<lambda>n. id_n n = src) ns)) e = Some h"
    and r: "e' = \<lparr> id_e = or_js (field e ''id'') (JStr (''e-'' @ string_of_nat idx)),
            source = src, target = tgt, sourceHandle = h, label_e = l \<rparr>"
    unfolding process_edge_def Let_def
    by (auto simp only: bind_eq_Some_conv option.inject)
  from a show "\<not> nullish e" by (simp add: get_def split: if_splits)
  from a have "s0 = field e ''source''" by (simp add: get_def split: if_splits)
  with b r show "String_js (or_js (field e ''source'') (field e ''from'')) = Some (source e')"
    by simp
  from c r show "String_js (or_js (field e ''target'') (field e ''to'')) = Some (target e')"
    by simp
  from d r
  show "resolve_handle (isDecision (find (\<lambda>n. id_n n = source e') ns)) e = Some (sourceHandle e')"
    by simp
  from r show "id_e e' = or_js (field e ''id'') (JStr (''e-'' @ string_of_nat idx))" by simp
qed

lemma resolve_handle_label:
  assumes "resolve_handle True e = Some h"
    and "truthy (field e ''label'')"
    and "String_js (field e ''label'') = Some s"
  shows "toLowerCase s = ''false'' \<Longrightarrow> h = JStr ''false''"
    and "toLowerCase s = ''true'' \<Longrightarrow> h = JStr ''true''"
  using assms unfolding resolve_handle_def Let_def
  by (simp_all split: if_splits)

lemma sequence_Some_iff: "sequence xs = Some ys \<longleftrightarrow> xs = map Some ys"
proof (induction xs arbitrary: ys)
  case Nil
  then show ?case by auto
next
  case (Cons x xs)
  show ?case
  proof (cases x)
    case None
    then show ?thesis by auto
  next
    case (Some v)
    with Cons show ?thesis by (cases ys) (auto simp: bind_eq_Some_conv)
  qed
qed

lemma map_js_Some_iff:
  "map_js f v = Some ys \<longleftrightarrow>
     (\<exists>xs. v = JArr xs \<and> length ys = length xs \<and> (\<forall>i<length xs. f i (xs ! i) = Some (ys ! i)))"
proof (cases v)
  case (JArr xs)
  have "map (\<lambda>(i, x). f i x) (enumerate 0 xs) = map Some ys \<longleftrightarrow>
        length ys = length xs \<and> (\<forall>i<length xs. f i (xs ! i) = Some (ys ! i))"
    by (auto simp: list_eq_iff_nth_eq nth_enumerate_eq)
  with JArr show ?thesis by (simp add: sequence_Some_iff)
qed simp_all

lemma normalize_Some_iff:
  "normalize g = Some (ns, es) \<longleftrightarrow>
     (\<exists>rn re. select_raw g = Some (JArr rn, JArr re) \<and>
        length ns = length rn \<and> (\<forall>i<length rn. normalize_node (rn ! i) = Some (ns ! i)) \<and>
        length es = length re \<and> (\<forall>i<length re. process_edge ns i (re ! i) = Some (es ! i)))"
  unfolding normalize_def
  by (auto simp: bind_eq_Some_conv map_js_Some_iff)

lemma normalize_sample_graph: "normalize sample_graph = Some ([sample_condition, sample_action], [bare_edge_out])"
  by (simp add: sample_graph_def sample_condition_def sample_action_def bare_edge_def bare_edge_out_def run_defs)

lemma select_raw_sample_graph: "select_raw sample_graph = Some (JArr [JObj [(''id'', JNum 1), (''type'', JStr ''condition'')],
                       JObj [(''id'', JNum 2), (''type'', JStr ''action'')]], JArr [bare_edge])"
  by (simp add: sample_graph_def run_defs)

lemma resolve_handle_returns:
  "String_js (field e ''label'') \<noteq> None \<Longrightarrow> \<exists>h. resolve_handle dec e = Some h"
  unfolding resolve_handle_def Let_def by (auto split: if_splits)

lemma process_edge_returns:
  assumes "\<not> nullish e"
    and "String_js (or_js (field e ''source'') (field e ''from'')) = Some s"
    and "String_js (or_js (field e ''target'') (field e ''to'')) = Some t"
    and "String_js (field e ''label'') \<noteq> None"
    and "String_js (field (field e ''condition'') ''value'') \<noteq> None"
  shows "\<exists>e'. process_edge ns idx e = Some e' \<and> source e' = s \<and> target e' = t"
proof -
  from resolve_handle_returns[OF assms(4)]
  obtain h where h: "resolve_handle (isDecision (find (\<lambda>n. id_n n = s) ns)) e = Some h" by blast
  from assms(5) obtain u where u: "String_js (field (field e ''condition'') ''value'') = Some u"
    by auto
  show ?thesis
    unfolding process_edge_def Let_def
    using assms(1,2,3) h u by (simp add: get_def)
qed

lemma process_edge_cong_nodes:
  assumes "\<And>src. String_js (or_js (field e ''source'') (field e ''from'')) = Some src \<Longrightarrow>
            isDecision (find (\<lambda>n. id_n n = src) ns) = isDecision (find (\<lambda>n. id_n n = src) ms)"
  shows "process_edge ns idx e = process_edge ms idx e"
proof (cases "nullish e")
  case True
  then show ?thesis by (simp add: process_edge_def get_def)
next
  case False
  show ?thesis
  proof (cases "String_js (or_js (field e ''source'') (field e ''from''))")
    case None
    with False show ?thesis by (simp add: process_edge_def get_def)
  next
    case (Some src)
    from assms[OF Some] Some False show ?thesis
      by (simp add: process_edge_def get_def Let_def)
  qed
qed



lemma normalize_node_SomeD:
  assumes "normalize_node raw = Some n"
  shows "\<not> nullish raw"
    and "String_js (field raw ''id'') = Some (id_n n)"
    and "\<exists>key. String_js (or_js (field raw ''type'') (JStr ''default'')) = Some key \<and>
           type_n n = (if nodeTypes_at key then or_js (field raw ''type'') (JStr ''default'')
                       else JStr ''default'')"
    and "nodeType (data_n n) = or_js (field raw ''type'') (oget (field raw ''data'') ''nodeType'')"
    and "label (data_n n) = or_js (field raw ''label'')
                                (or_js (oget (field raw ''data'') ''label'') (JStr ''Untitled''))"
    and "config (data_n n) = or_js (field raw ''config'')
                                 (or_js (oget (field raw ''data'') ''config'') (JObj []))"
    and "position_n n = or_js (field raw ''position'') (JObj [(''x'', JNum 0), (''y'', JNum 0)])"
proof -
  from assms obtain t key i where
    a: "get raw ''type'' = Some t"
    and b: "String_js (or_js t (JStr ''default'')) = Some key"
    and c: "String_js (field raw ''id'') = Some i"
    and r: "n = \<lparr> id_n = i,
            type_n = (if nodeTypes_at key then or_js t (JStr ''default'') else JStr ''default''),
            data_n = \<lparr> label = or_js (field raw ''label'')
                                (or_js (oget (field raw ''data'') ''label'') (JStr ''Untitled'')),
                       nodeType = or_js (field raw ''type'') (oget (field raw ''data'') ''nodeType''),
                       config = or_js (field raw ''config'')
                                 (or_js (oget (field raw ''data'') ''config'') (JObj [])),
                       params = or_js (field raw ''params'') (JObj []),
                       integration_type_name = field raw ''integration_type_name'',
                       task = field raw ''task'',
                       task_display_name = field raw ''task_display_name'' \<rparr>,
            position_n = or_js (field raw ''position'') (JObj [(''x'', JNum 0), (''y'', JNum 0)]) \<rparr>"
    unfolding normalize_node_def Let_def
    by (auto simp only: bind_eq_Some_conv option.inject)
  from a have n: "\<not> nullish raw" and t: "t = field raw ''type''"
    by (simp_all add: get_def split: if_splits)
  show "\<not> nullish raw" by (rule n)
  from c r show "String_js (field raw ''id'') = Some (id_n n)" by simp
  from b r t show "\<exists>key. String_js (or_js (field raw ''type'') (JStr ''default'')) = Some key \<and>
           type_n n = (if nodeTypes_at key then or_js (field raw ''type'') (JStr ''default'')
                       else JStr ''default'')" by simp
  from r show "nodeType (data_n n) = or_js (field raw ''type'') (oget (field raw ''data'') ''nodeType'')"
    by simp
  from r show "label (data_n n) = or_js (field raw ''label'')
                                (or_js (oget (field raw ''data'') ''label'') (JStr ''Untitled''))"
    by simp
  from r show "config (data_n n) = or_js (field raw ''config'')
                                 (or_js (oget (field raw ''data'') ''config'') (JObj []))"
    by simp
  from r show "position_n n = or_js (field raw ''position'') (JObj [(''x'', JNum 0), (''y'', JNum 0)])"
    by simp
qed

lemma tagged_decision_iff:
  assumes "normalize_node raw = Some n" and "truthy (field raw ''type'')"
  shows "isDecision (Some n) \<longleftrightarrow> type_n n = JStr ''condition'' \<or> type_n n = JStr ''control''"
proof -
  let ?t = "field raw ''type''"
  from normalize_node_SomeD(3)[OF assms(1)] assms(2) obtain key where
    k: "String_js ?t = Some key" and ty: "type_n n = (if nodeTypes_at key then ?t else JStr ''default'')"
    by (auto simp: or_js_def)
  from normalize_node_SomeD(4)[OF assms(1)] assms(2) have nt: "nodeType (data_n n) = ?t"
    by (simp add: or_js_def)
  have c: "?t = JStr ''condition'' \<Longrightarrow> nodeTypes_at key"
    and d: "?t = JStr ''control'' \<Longrightarrow> nodeTypes_at key"
    using k by (auto simp: nodeTypes_at_def nodeTypes_def)
  show ?thesis
    unfolding isDecision_def using ty nt c d by auto
qed

section \<open>Branch resolution: label against explicit handle\<close>

text \<open>
  C1, as stated, at a concrete graph: the condition node \<open>1\<close> has an outgoing edge with
  the explicit handle \<open>true\<close> and the label \<open>False\<close>. The canonical edge carries the
  branch \<open>false\<close>, the one derived from the label, and not the explicit handle.
\<close>

theorem explicit_handle_loses_counterexample:
  "field conflicting_edge ''sourceHandle'' = JStr ''true'' \<and>
   map_option (map sourceHandle \<circ> snd)
     (normalize (JObj [
        (''nodes'', JArr [JObj [(''id'', JNum 1), (''type'', JStr ''condition'')],
                          JObj [(''id'', JNum 2), (''type'', JStr ''action'')]]),
        (''edges'', JArr [conflicting_edge])]))
   = Some [JStr ''false'']"
  by (simp add: conflicting_edge_def run_defs)

text \<open>
  C1, amended: for every raw edge leaving a decision-kind source node whose label is, case
  insensitively, \<open>true\<close> or \<open>false\<close>, the branch indicator of the canonical edge is the
  lower-cased label, whatever explicit handle the edge carries: lines 113 to 117 overwrite
  the handle read at line 112.
\<close>

theorem label_overrides_handle:
  assumes "process_edge ns idx e = Some e'"
    and "isDecision (find (\<lambda>n. id_n n = source e') ns)"
    and "truthy (field e ''label'')"
    and "String_js (field e ''label'') = Some s"
    and "toLowerCase s = ''true'' \<or> toLowerCase s = ''false''"
  shows "sourceHandle e' = JStr (toLowerCase s)"
proof -
  from process_edge_SomeD(4)[OF assms(1)] assms(2)
  have "resolve_handle True e = Some (sourceHandle e')" by simp
  from resolve_handle_label[OF this assms(3,4)] assms(5) show ?thesis by auto
qed

theorem label_overrides_handle_witness:
  "field conflicting_edge ''sourceHandle'' = JStr ''true'' \<and>
   String_js (field conflicting_edge ''label'') = Some ''False'' \<and>
   sourceHandle (the (process_edge [sample_condition] 0 conflicting_edge)) = JStr ''false''"
proof -
  define e' where "e' = the (process_edge [sample_condition] 0 conflicting_edge)"
  have h1: "process_edge [sample_condition] 0 conflicting_edge = Some e'"
    by (simp add: e'_def sample_condition_def conflicting_edge_def run_defs)
  have src: "source e' = ''1''"
    by (simp add: e'_def sample_condition_def conflicting_edge_def run_defs)
  have h2: "isDecision (find (\<lambda>n. id_n n = source e') [sample_condition])"
    by (simp add: src) (simp add: sample_condition_def isDecision_def)
  have h3: "truthy (field conflicting_edge ''label'')"
    by (simp add: conflicting_edge_def)
  have h4: "String_js (field conflicting_edge ''label'') = Some ''False''"
    by (simp add: conflicting_edge_def)
  have h5: "toLowerCase ''False'' = ''true'' \<or> toLowerCase ''False'' = ''false''"
    by (simp add: toLowerCase_def)
  have low: "toLowerCase ''False'' = ''false''"
    by (simp add: toLowerCase_def)
  from label_overrides_handle[OF h1 h2 h3 h4 h5] low h4
  show ?thesis by (simp add: e'_def conflicting_edge_def)
qed

section \<open>A workflow record without \<open>workflow_data\<close>\<close>

text \<open>
  C2 at the input \<open>{workflows: [{}]}\<close>: the first workflow record is truthy, so line 76
  binds \<open>w\<close> to \<open>undefined\<close> and line 77 reads \<open>w.nodes\<close>, which throws. Normalization
  does not return a graph there, and the effect sets no state.
\<close>

theorem normalize_throws_without_workflow_data:
  "normalize (JObj [(''workflows'', JArr [JObj []])]) = None \<and>
   WorkflowCanvas_effect dagre (JObj [(''workflows'', JArr [JObj []])]) st = None"
  by (simp add: WorkflowCanvas_effect_def run_defs)

section \<open>Shape detection\<close>

text \<open>
  C3, as stated, at a concrete input: the object has an empty \<open>workflows\<close> list and a
  simple-shape \<open>nodes\<close> list with one node. The result is not empty: it holds that node.
\<close>

theorem empty_workflows_falls_back_counterexample:
  "field empty_workflows_graph ''workflows'' = JArr [] \<and>
   map_option (map id_n \<circ> fst) (normalize empty_workflows_graph) = Some [''1'']"
  by (simp add: empty_workflows_graph_def run_defs)

text \<open>
  C3, amended: when the \<open>workflows\<close> container is absent, empty or has no truthy first
  record, normalization reads the simple-shape fields of the same object (the \<open>else\<close>
  branch of line 79): the raw node list is \<open>graphData.nodes\<close> and the raw edge list is
  \<open>graphData.edges\<close>, each replaced by the empty list when absent or falsy. So when both
  fields are arrays the canonical graph is exactly their normalization, position by
  position, and the result is empty when both fields are absent.
\<close>

theorem no_first_workflow_reads_simple_shape:
  assumes "\<not> truthy (index0 (field g ''workflows''))"
  shows "select_raw g = Some (or_js (field g ''nodes'') (JArr []), or_js (field g ''edges'') (JArr [])) \<and>
         (field g ''nodes'' = JArr rn \<and> field g ''edges'' = JArr re \<longrightarrow>
            (normalize g = Some (ns, es) \<longleftrightarrow>
               length ns = length rn \<and> (\<forall>i<length rn. normalize_node (rn ! i) = Some (ns ! i)) \<and>
               length es = length re \<and> (\<forall>i<length re. process_edge ns i (re ! i) = Some (es ! i)))) \<and>
         (\<not> truthy (field g ''nodes'') \<and> \<not> truthy (field g ''edges'') \<longrightarrow> normalize g = Some ([], []))"
proof -
  from assms have s: "select_raw g = Some (or_js (field g ''nodes'') (JArr []), or_js (field g ''edges'') (JArr []))"
    by (simp add: select_raw_def)
  have a: "normalize g = Some (ns, es) \<longleftrightarrow>
               length ns = length rn \<and> (\<forall>i<length rn. normalize_node (rn ! i) = Some (ns ! i)) \<and>
               length es = length re \<and> (\<forall>i<length re. process_edge ns i (re ! i) = Some (es ! i))"
    if "field g ''nodes'' = JArr rn" "field g ''edges'' = JArr re"
    using that s by (simp add: normalize_Some_iff or_js_def)
  have b: "normalize g = Some ([], [])"
    if "\<not> truthy (field g ''nodes'')" "\<not> truthy (field g ''edges'')"
    using that s by (simp add: normalize_Some_iff or_js_def)
  from s a b show ?thesis by blast
qed

theorem no_first_workflow_reads_simple_shape_witness:
  "\<not> truthy (index0 (field empty_workflows_graph ''workflows'')) \<and>
   field empty_workflows_graph ''nodes'' = JArr [JObj [(''id'', JNum 1)]] \<and>
   field empty_workflows_graph ''edges'' = JArr [] \<and>
   normalize empty_workflows_graph = Some ([untyped_node_1], [])"
proof -
  have h: "\<not> truthy (index0 (field empty_workflows_graph ''workflows''))"
    by (simp add: empty_workflows_graph_def)
  have n: "field empty_workflows_graph ''nodes'' = JArr [JObj [(''id'', JNum 1)]]"
    and e: "field empty_workflows_graph ''edges'' = JArr []"
    by (simp_all add: empty_workflows_graph_def)
  have m: "normalize_node (JObj [(''id'', JNum 1)]) = Some untyped_node_1"
    by (simp add: untyped_node_1_def run_defs)
  from no_first_workflow_reads_simple_shape[OF h, of "[JObj [(''id'', JNum 1)]]" "[]" "[untyped_node_1]" "[]"] n e m
  have "normalize empty_workflows_graph = Some ([untyped_node_1], [])" by simp
  with h n e show ?thesis by simp
qed

section \<open>Node kinds\<close>

text \<open>
  C5 at the raw node \<open>{id: 1, type: 'constructor'}\<close>: the tag is none of the eleven keys
  of \<open>nodeTypes\<close>, yet \<open>nodeTypes['constructor']\<close> is the inherited constructor function,
  which is truthy, so line 87 keeps the tag as the kind of the node instead of \<open>default\<close>.
\<close>

theorem inherited_name_counts_as_kind:
  "''constructor'' \<notin> set nodeTypes \<and>
   map_option type_n (normalize_node (JObj [(''id'', JNum 1), (''type'', JStr ''constructor'')]))
     = Some (JStr ''constructor'')"
  by (simp add: run_defs)

text \<open>What line 86, 87 and 93 do otherwise: a recognized tag is kept, a tag that is neither
  recognized nor a name inherited from \<open>Object.prototype\<close> and an absent tag give
  \<open>default\<close>, and the label defaults to \<open>Untitled\<close>.\<close>

lemma recognized_or_default:
  assumes "\<not> nullish raw" and "String_js (field raw ''id'') = Some i"
  shows "k \<in> set nodeTypes \<Longrightarrow> field raw ''type'' = JStr k \<Longrightarrow>
           map_option type_n (normalize_node raw) = Some (JStr k)"
    and "k \<notin> set nodeTypes \<Longrightarrow> k \<notin> set Object_prototype \<Longrightarrow> field raw ''type'' = JStr k \<Longrightarrow>
           map_option type_n (normalize_node raw) = Some (JStr ''default'')"
    and "field raw ''type'' = JUndefined \<Longrightarrow>
           map_option type_n (normalize_node raw) = Some (JStr ''default'')"
    and "\<not> truthy (field raw ''label'') \<Longrightarrow> \<not> truthy (oget (field raw ''data'') ''label'') \<Longrightarrow>
           String_js (or_js (field raw ''type'') (JStr ''default'')) \<noteq> None \<Longrightarrow>
           map_option (label \<circ> data_n) (normalize_node raw) = Some (JStr ''Untitled'')"
  using assms
  by (auto simp: normalize_node_def get_def or_js_def Let_def nodeTypes_at_def nodeTypes_def)

section \<open>Edge endpoints\<close>

text \<open>
  C6 at the edge \<open>{source: 0, target: 1, from: 5, to: 6}\<close>: both endpoint pairs are
  present, and the canonical source is \<open>5\<close>, taken from \<open>from\<close>, because line 107
  evaluates \<open>0 || 5\<close>; the target \<open>1\<close> is kept. Without a \<open>from\<close>, the same source
  \<open>0\<close> becomes the string \<open>undefined\<close>. Line 90 coerces the node id \<open>0\<close> itself to
  \<open>0\<close>, so an edge can no longer name that node.
\<close>

theorem source_zero_replaced_by_from:
  "field both_pairs_edge ''source'' = JNum 0 \<and> field both_pairs_edge ''from'' = JNum 5 \<and>
   map_option source (process_edge [] 0 both_pairs_edge) = Some ''5'' \<and>
   map_option target (process_edge [] 0 both_pairs_edge) = Some ''1'' \<and>
   map_option source (process_edge [] 0 zero_source_edge) = Some ''undefined'' \<and>
   map_option id_n (normalize_node (JObj [(''id'', JNum 0)])) = Some ''0''"
  by (simp add: both_pairs_edge_def zero_source_edge_def run_defs)

text \<open>For truthy \<open>source\<close> and \<open>target\<close> the endpoints are their string forms, whatever
  \<open>from\<close> and \<open>to\<close> hold.\<close>

lemma endpoints_from_truthy_source_target:
  assumes "\<not> nullish e"
    and "truthy (field e ''source'')" and "truthy (field e ''target'')"
    and "String_js (field e ''source'') = Some s"
    and "String_js (field e ''target'') = Some t"
    and "String_js (field e ''label'') \<noteq> None"
    and "String_js (field (field e ''condition'') ''value'') \<noteq> None"
  shows "\<exists>e'. process_edge ns idx e = Some e' \<and> source e' = s \<and> target e' = t"
  using process_edge_returns[OF assms(1) _ _ assms(6,7), of s t ns idx] assms(2-5)
  by (simp add: or_js_def)

section \<open>Edges without a resolvable branch\<close>





section \<open>Order and independence of earlier state\<close>

text \<open>
  C9: the canonical graph is a function of the raw graph alone. Its node list is the raw
  node list, normalized position by position, its edge list the raw edge list, processed
  position by position with the position as index; and what the effect stores for a graph
  does not depend on the state it finds.
\<close>

theorem normalize_in_input_order:
  assumes "truthy g" and "normalize g = Some (ns, es)"
  shows "(\<exists>rn re. select_raw g = Some (JArr rn, JArr re) \<and>
            length ns = length rn \<and> (\<forall>i<length rn. normalize_node (rn ! i) = Some (ns ! i)) \<and>
            length es = length re \<and> (\<forall>i<length re. process_edge ns i (re ! i) = Some (es ! i))) \<and>
         (\<forall>st st'. WorkflowCanvas_effect dagre g st = WorkflowCanvas_effect dagre g st')"
  using assms by (simp add: normalize_Some_iff[symmetric] WorkflowCanvas_effect_def)

theorem normalize_in_input_order_witness:
  "truthy sample_graph \<and>
   normalize sample_graph = Some ([sample_condition, sample_action], [bare_edge_out]) \<and>
   (\<exists>rn re. select_raw sample_graph = Some (JArr rn, JArr re) \<and> length rn = 2 \<and> length re = 1 \<and>
      normalize_node (rn ! 0) = Some sample_condition \<and> normalize_node (rn ! 1) = Some sample_action \<and>
      process_edge [sample_condition, sample_action] 0 (re ! 0) = Some bare_edge_out)"
proof -
  have h1: "truthy sample_graph" by (simp add: sample_graph_def)
  have h2: "normalize sample_graph = Some ([sample_condition, sample_action], [bare_edge_out])"
    by (rule normalize_sample_graph)
  from normalize_in_input_order[OF h1 h2] obtain rn re where
    s: "select_raw sample_graph = Some (JArr rn, JArr re)"
    and l: "length [sample_condition, sample_action] = length rn" "length [bare_edge_out] = length re"
    and n: "\<forall>i<length rn. normalize_node (rn ! i) = Some ([sample_condition, sample_action] ! i)"
    and e: "\<forall>i<length re. process_edge [sample_condition, sample_action] i (re ! i) = Some ([bare_edge_out] ! i)"
    by blast
  from l have l2: "length rn = 2" "length re = 1" by simp_all
  from n l2 have "normalize_node (rn ! 0) = Some sample_condition"
    "normalize_node (rn ! 1) = Some sample_action"
    by force+
  moreover from e l2 have "process_edge [sample_condition, sample_action] 0 (re ! 0) = Some bare_edge_out"
    by force
  ultimately show ?thesis using h1 h2 s l2 by blast
qed

section \<open>Duplicate node ids\<close>

text \<open>
  C10: when several nodes have the id that an edge resolves as its source, the lookup of
  line 109 answers the first of them in the order of the node list, and the branch of the
  edge is resolved with the decision test of that first node: when it is not a decision
  node the handle of the edge is left as read, whatever the later nodes with the same id
  are, and when it is one a label reading \<open>true\<close> or \<open>false\<close> becomes the handle.
\<close>

theorem first_match_decides:
  assumes "i < length ns" and "id_n (ns ! i) = src" and "\<forall>j<i. id_n (ns ! j) \<noteq> src"
    and "String_js (or_js (field e ''source'') (field e ''from'')) = Some src"
    and "process_edge ns idx e = Some e'"
  shows "find (\<lambda>n. id_n n = src) ns = Some (ns ! i) \<and>
         process_edge ns idx e = process_edge [ns ! i] idx e \<and>
         resolve_handle (isDecision (Some (ns ! i))) e = Some (sourceHandle e') \<and>
         (\<not> isDecision (Some (ns ! i)) \<longrightarrow> sourceHandle e' = field e ''sourceHandle'') \<and>
         (isDecision (Some (ns ! i)) \<and> truthy (field e ''label'') \<and>
          String_js (field e ''label'') = Some u \<and>
          (toLowerCase u = ''true'' \<or> toLowerCase u = ''false'')
            \<longrightarrow> sourceHandle e' = JStr (toLowerCase u))"
proof -
  from assms(1-3) have f: "find (\<lambda>n. id_n n = src) ns = Some (ns ! i)"
    by (auto simp: find_Some_iff)
  have c: "process_edge ns idx e = process_edge [ns ! i] idx e"
  proof (rule process_edge_cong_nodes)
    fix s assume "String_js (or_js (field e ''source'') (field e ''from'')) = Some s"
    with assms(4) have "s = src" by simp
    with f assms(2)
    show "isDecision (find (\<lambda>n. id_n n = s) ns) = isDecision (find (\<lambda>n. id_n n = s) [ns ! i])"
      by simp
  qed
  from process_edge_SomeD(2)[OF assms(5)] assms(4) have s: "source e' = src" by simp
  from process_edge_SomeD(4)[OF assms(5)] s f
  have r: "resolve_handle (isDecision (Some (ns ! i))) e = Some (sourceHandle e')" by simp
  have n: "sourceHandle e' = field e ''sourceHandle''" if "\<not> isDecision (Some (ns ! i))"
    using r that unfolding resolve_handle_def Let_def by simp
  have d: "sourceHandle e' = JStr (toLowerCase u)"
    if "isDecision (Some (ns ! i))" "truthy (field e ''label'')" "String_js (field e ''label'') = Some u"
      "toLowerCase u = ''true'' \<or> toLowerCase u = ''false''"
    using r that resolve_handle_label[of e "sourceHandle e'" u] by auto
  from f c r n d show ?thesis by blast
qed

theorem first_match_decides_witness:
  "id_n sample_condition = id_n duplicate_log \<and>
   isDecision (Some sample_condition) \<and> \<not> isDecision (Some duplicate_log) \<and>
   map_option sourceHandle (process_edge [sample_action, sample_condition, duplicate_log] 0 labelled_edge)
     = Some (JStr ''true'') \<and>
   map_option sourceHandle (process_edge [sample_action, duplicate_log, sample_condition] 0 labelled_edge)
     = Some JUndefined"
proof -
  let ?a = "[sample_action, sample_condition, duplicate_log]"
  let ?b = "[sample_action, duplicate_log, sample_condition]"
  have ids: "id_n sample_condition = id_n duplicate_log"
    by (simp add: sample_condition_def duplicate_log_def)
  have dc: "isDecision (Some sample_condition)" and dl: "\<not> isDecision (Some duplicate_log)"
    by (simp_all add: sample_condition_def duplicate_log_def isDecision_def)
  have a1: "1 < length ?a" and b1: "1 < length ?b" by simp_all
  have a2: "id_n (?a ! 1) = ''1''" and b2: "id_n (?b ! 1) = ''1''"
    by (simp_all add: sample_condition_def duplicate_log_def)
  have a3: "\<forall>j<1. id_n (?a ! j) \<noteq> ''1''" and b3: "\<forall>j<1. id_n (?b ! j) \<noteq> ''1''"
    by (simp_all add: sample_action_def)
  have h4: "String_js (or_js (field labelled_edge ''source'') (field labelled_edge ''from'')) = Some ''1''"
    by (simp add: labelled_edge_def or_js_def string_of_int_def string_of_nat.simps)
  have h4': "String_js (or_js (field labelled_edge ''target'') (field labelled_edge ''to'')) = Some ''2''"
    by (simp add: labelled_edge_def or_js_def string_of_int_def string_of_nat.simps)
  have l: "truthy (field labelled_edge ''label'')" "String_js (field labelled_edge ''label'') = Some ''True''"
    "toLowerCase ''True'' = ''true''" "field labelled_edge ''sourceHandle'' = JUndefined"
    by (simp_all add: labelled_edge_def toLowerCase_def)
  have nn: "\<not> nullish labelled_edge" by (simp add: labelled_edge_def nullish_def)
  have st: "String_js (field labelled_edge ''label'') \<noteq> None"
    "String_js (field (field labelled_edge ''condition'') ''value'') \<noteq> None"
    by (simp_all add: labelled_edge_def)
  from process_edge_returns[OF nn h4 h4' st] obtain ea where
    pa: "process_edge ?a 0 labelled_edge = Some ea" by blast
  from process_edge_returns[OF nn h4 h4' st] obtain eb where
    pb: "process_edge ?b 0 labelled_edge = Some eb" by blast
  from first_match_decides[OF a1 a2 a3 h4 pa, of "''True''"] dc l
  have ra: "sourceHandle ea = JStr ''true''" by simp
  from first_match_decides[OF b1 b2 b3 h4 pb, of "''True''"] dl l
  have rb: "sourceHandle eb = JUndefined" by simp
  from ids dc dl pa pb ra rb show ?thesis by simp
qed

section \<open>Footprints\<close>

text \<open>
  C8, as stated, at a concrete node: \<open>{id: '1', data: {nodeType: 'condition'}}\<close> has no
  kind tag, so its kind is the generic \<open>default\<close>, and still it gets the larger footprint,
  because line 34 reads \<open>data.nodeType\<close>.
\<close>

theorem tagless_condition_counterexample:
  "map_option type_n (normalize_node tagless_condition) = Some (JStr ''default'') \<and>
   map_option footprint (normalize_node tagless_condition) = Some (300, 150)"
  by (simp add: tagless_condition_def footprint_def isDiamond_def run_defs)

text \<open>
  C8, amended: a node gets the footprint 300 by 150 exactly when the decision test of line
  110 holds of it (\<open>data.nodeType\<close> is \<open>condition\<close> or the kind is \<open>control\<close>), and 250
  by 120 otherwise. A node of kind \<open>condition\<close> or \<open>control\<close> passes the test, and for a
  node whose raw form has a kind tag the test is the same as having one of these two
  kinds. The footprints go into the graph handed to dagre; the edges come back as they
  were, and the nodes keep their id, kind and data.
\<close>

theorem footprint_follows_decision_test:
  assumes "normalize_node raw = Some n"
  shows "footprint n = (if isDecision (Some n) then (300, 150) else (250, 120)) \<and>
         (type_n n = JStr ''condition'' \<or> type_n n = JStr ''control'' \<longrightarrow> isDecision (Some n)) \<and>
         (truthy (field raw ''type'') \<longrightarrow>
            (isDecision (Some n) \<longleftrightarrow> type_n n = JStr ''condition'' \<or> type_n n = JStr ''control'')) \<and>
         g_nodes (dagreGraph ns es direction) = map (\<lambda>m. (id_n m, footprint m)) ns \<and>
         snd (getLayoutedElements dagre ns es direction) = es \<and>
         map id_p (fst (getLayoutedElements dagre ns es direction)) = map id_n ns \<and>
         map type_p (fst (getLayoutedElements dagre ns es direction)) = map type_n ns \<and>
         map data_p (fst (getLayoutedElements dagre ns es direction)) = map data_n ns"
proof -
  have a: "footprint n = (if isDecision (Some n) then (300, 150) else (250, 120))"
    by (simp add: footprint_def isDiamond_def isDecision_def)
  have b: "type_n n = JStr ''condition'' \<or> type_n n = JStr ''control'' \<longrightarrow> isDecision (Some n)"
  proof (cases "truthy (field raw ''type'')")
    case True
    from tagged_decision_iff[OF assms True] show ?thesis by simp
  next
    case False
    with normalize_node_SomeD(3)[OF assms] have "type_n n = JStr ''default''"
      by (auto simp: or_js_def)
    then show ?thesis by simp
  qed
  have c: "truthy (field raw ''type'') \<longrightarrow>
            (isDecision (Some n) \<longleftrightarrow> type_n n = JStr ''condition'' \<or> type_n n = JStr ''control'')"
    using tagged_decision_iff[OF assms] by blast
  have d: "g_nodes (dagreGraph ns es direction) = map (\<lambda>m. (id_n m, footprint m)) ns"
    by (simp add: dagreGraph_def)
  have e: "snd (getLayoutedElements dagre ns es direction) = es"
    by (simp add: getLayoutedElements_def Let_def)
  have f: "map id_p (fst (getLayoutedElements dagre ns es direction)) = map id_n ns"
    "map type_p (fst (getLayoutedElements dagre ns es direction)) = map type_n ns"
    "map data_p (fst (getLayoutedElements dagre ns es direction)) = map data_n ns"
    by (simp_all add: getLayoutedElements_def place_def Let_def comp_def)
  from a b c d e f show ?thesis by blast
qed

theorem footprint_follows_decision_test_witness:
  "normalize_node (JObj [(''id'', JNum 1), (''type'', JStr ''condition'')]) = Some sample_condition \<and>
   truthy (field (JObj [(''id'', JNum 1), (''type'', JStr ''condition'')]) ''type'') \<and>
   type_n sample_condition = JStr ''condition'' \<and>
   isDecision (Some sample_condition) \<and> footprint sample_condition = (300, 150)"
proof -
  have h: "normalize_node (JObj [(''id'', JNum 1), (''type'', JStr ''condition'')]) = Some sample_condition"
    by (rule normalize_node_sample_condition)
  have t: "type_n sample_condition = JStr ''condition''" by (simp add: sample_condition_def)
  from footprint_follows_decision_test[OF h] t h show ?thesis by simp
qed

section \<open>Export and re-normalization\<close>

text \<open>
  C4, as stated, at a concrete graph: one action node with the parameters \<open>{a: 1}\<close>. Its
  canonical form carries the parameters under \<open>data.params\<close>; serialized and normalized
  again, the node has the empty parameter map.
\<close>

theorem reexport_loses_params_counterexample:
  "map_option (map (params \<circ> data_n) \<circ> fst) (normalize params_graph) = Some [JObj [(''a'', JNum 1)]] \<and>
   map_option (map (params \<circ> data_n) \<circ> fst)
     (normalize (JSON_value (graph_js (the (normalize params_graph))))) = Some [JObj []]"
  by (simp add: params_graph_def graph_js_def node_js_def edge_js_def run_defs)

lemma is_json_JSON_value: "is_json v \<Longrightarrow> JSON_value v = v"
proof (induction v)
  case (JArr xs)
  then have "map (\<lambda>x. if x = JUndefined then JNull else JSON_value x) xs = map (\<lambda>x. x) xs"
    by (intro map_cong) (auto simp: list_all_iff)
  then show ?case by simp
next
  case (JObj kvs)
  then have a: "filter (\<lambda>(k, v). v \<noteq> JUndefined) kvs = kvs"
    by (auto simp: list_all_iff filter_id_conv)
  from JObj have "map (\<lambda>(k, v). (k, JSON_value v)) kvs = map (\<lambda>x. x) kvs"
    by (intro map_cong) (auto simp: list_all_iff snds.simps)
  with a show ?case by simp
qed simp_all

lemma truthy_defined: "truthy v \<Longrightarrow> v \<noteq> JUndefined"
  by auto

lemma is_json_field: "is_json v \<Longrightarrow> field v k \<noteq> JUndefined \<Longrightarrow> is_json (field v k)"
  by (cases v) (auto simp: list_all_iff split: option.splits dest!: map_of_SomeD)

lemma is_json_index0: "is_json v \<Longrightarrow> index0 v \<noteq> JUndefined \<Longrightarrow> is_json (index0 v)"
  by (cases v) (auto simp: list_all_iff split: option.splits list.splits dest!: map_of_SomeD)

lemma is_json_oget: "is_json v \<or> v = JUndefined \<Longrightarrow> oget v k \<noteq> JUndefined \<Longrightarrow> is_json (oget v k)"
  by (auto simp: oget_def is_json_field split: if_splits)

lemma map_of_filter_distinct:
  "distinct (map fst kvs) \<Longrightarrow>
     map_of (filter (\<lambda>(k, v). P v) kvs) k =
       (case map_of kvs k of None \<Rightarrow> None | Some v \<Rightarrow> if P v then Some v else None)"
proof (induction kvs)
  case Nil
  then show ?case by simp
next
  case (Cons kv kvs)
  obtain a b where kv: "kv = (a, b)" by (cases kv)
  from Cons.prems kv have "map_of kvs a = None"
    by (simp add: map_of_eq_None_iff)
  with Cons kv show ?case by (auto split: option.splits)
qed

lemma field_JSON_value:
  assumes "distinct (map fst kvs)"
  shows "field (JSON_value (JObj kvs)) k =
     (if field (JObj kvs) k = JUndefined then JUndefined else JSON_value (field (JObj kvs) k))"
proof -
  have "map_of (map (\<lambda>(k, v). (k, JSON_value v)) (filter (\<lambda>(k, v). v \<noteq> JUndefined) kvs)) k
        = map_option JSON_value (map_of (filter (\<lambda>(k, v). v \<noteq> JUndefined) kvs) k)"
    by (simp add: map_of_map)
  then show ?thesis
    by (simp add: map_of_filter_distinct[OF assms] split: option.splits)
qed

lemma written_JSON_value: "written v \<Longrightarrow> (if v = JUndefined then JUndefined else JSON_value v) = v"
  by (auto simp: written_def is_json_JSON_value)

lemma written_field: "is_json v \<Longrightarrow> written (field v k)"
  using is_json_field[of v k] by (auto simp: written_def)

lemma written_oget: "written v \<Longrightarrow> written (oget v k)"
  using is_json_oget[of v k] by (auto simp: written_def)

lemma truthy_written: "truthy v \<Longrightarrow> written v \<Longrightarrow> is_json v"
  by (auto simp: written_def)

lemma or_js_json: "written a \<Longrightarrow> is_json b \<Longrightarrow> truthy b \<Longrightarrow> is_json (or_js a b) \<and> truthy (or_js a b)"
  by (auto simp: or_js_def written_def)

lemma or_js2_json:
  "written a \<Longrightarrow> written b \<Longrightarrow> is_json c \<Longrightarrow> truthy c \<Longrightarrow>
     is_json (or_js a (or_js b c)) \<and> truthy (or_js a (or_js b c))"
  by (auto simp: or_js_def written_def)

lemma or_js_written: "written a \<Longrightarrow> written b \<Longrightarrow> written (or_js a b)"
  by (auto simp: or_js_def)

lemma normalize_node_canonical:
  assumes "normalize_node raw = Some n" and "is_json raw"
  shows "canonical_node n"
proof -
  note f = written_field[OF assms(2)]
  from assms(1) obtain t key i where
    a: "get raw ''type'' = Some t"
    and b: "String_js (or_js t (JStr ''default'')) = Some key"
    and r: "n = \<lparr> id_n = i,
            type_n = (if nodeTypes_at key then or_js t (JStr ''default'') else JStr ''default''),
            data_n = \<lparr> label = or_js (field raw ''label'')
                                (or_js (oget (field raw ''data'') ''label'') (JStr ''Untitled'')),
                       nodeType = or_js (field raw ''type'') (oget (field raw ''data'') ''nodeType''),
                       config = or_js (field raw ''config'')
                                 (or_js (oget (field raw ''data'') ''config'') (JObj [])),
                       params = or_js (field raw ''params'') (JObj []),
                       integration_type_name = field raw ''integration_type_name'',
                       task = field raw ''task'',
                       task_display_name = field raw ''task_display_name'' \<rparr>,
            position_n = or_js (field raw ''position'') (JObj [(''x'', JNum 0), (''y'', JNum 0)]) \<rparr>"
    unfolding normalize_node_def Let_def
    by (auto simp only: bind_eq_Some_conv option.inject)
  from a have t: "t = field raw ''type''" by (simp add: get_def split: if_splits)
  have ty: "is_json (or_js t (JStr ''default'')) \<and> truthy (or_js t (JStr ''default''))"
    unfolding t by (rule or_js_json[OF f]) simp_all
  have k: "case String_js (type_n n) of None \<Rightarrow> False | Some key \<Rightarrow> nodeTypes_at key"
    using b r by (simp add: nodeTypes_at_def nodeTypes_def)
  have l: "is_json (label (data_n n)) \<and> truthy (label (data_n n))"
    unfolding r using or_js2_json[OF f written_oget[OF f], of "JStr ''Untitled''" "''label''" "''data''" "''label''"]
    by simp
  have c: "is_json (config (data_n n)) \<and> truthy (config (data_n n))"
    unfolding r using or_js2_json[OF f written_oget[OF f], of "JObj []" "''config''" "''data''" "''config''"]
    by simp
  have p: "is_json (params (data_n n)) \<and> truthy (params (data_n n))"
    unfolding r using or_js_json[OF f, of "JObj []" "''params''"] by simp
  have q: "is_json (position_n n) \<and> truthy (position_n n)"
    unfolding r using or_js_json[OF f, of "JObj [(''x'', JNum 0), (''y'', JNum 0)]" "''position''"] by simp
  have w: "written (nodeType (data_n n))" "written (integration_type_name (data_n n))"
    "written (task (data_n n))" "written (task_display_name (data_n n))"
    unfolding r by (simp_all add: f or_js_written written_oget)
  from ty have ty': "truthy (type_n n) \<and> is_json (type_n n)" unfolding r by simp
  from ty' k l c p q w show ?thesis unfolding canonical_node_def by blast
qed


lemma node_js_read:
  assumes "canonical_node n"
  shows "\<not> nullish (JSON_value (node_js n))"
    and "field (JSON_value (node_js n)) ''type'' = type_n n"
    and "field (JSON_value (node_js n)) ''id'' = JStr (id_n n)"
    and "field (JSON_value (node_js n)) ''position'' = position_n n"
    and "field (JSON_value (node_js n)) ''label'' = JUndefined"
    and "field (JSON_value (node_js n)) ''config'' = JUndefined"
    and "field (JSON_value (node_js n)) ''params'' = JUndefined"
    and "field (JSON_value (node_js n)) ''integration_type_name'' = JUndefined"
    and "field (JSON_value (node_js n)) ''task'' = JUndefined"
    and "field (JSON_value (node_js n)) ''task_display_name'' = JUndefined"
    and "oget (field (JSON_value (node_js n)) ''data'') ''label'' = label (data_n n)"
    and "oget (field (JSON_value (node_js n)) ''data'') ''config'' = config (data_n n)"
proof -
  from assms have j: "is_json (type_n n)" "is_json (position_n n)" "is_json (label (data_n n))"
    "is_json (config (data_n n))"
    by (simp_all add: canonical_node_def)
  show "\<not> nullish (JSON_value (node_js n))" by (simp add: node_js_def nullish_def)
  show "field (JSON_value (node_js n)) ''type'' = type_n n"
    unfolding node_js_def by (subst field_JSON_value) (simp_all add: is_json_JSON_value j)
  show "field (JSON_value (node_js n)) ''id'' = JStr (id_n n)"
    unfolding node_js_def by (subst field_JSON_value) simp_all
  show "field (JSON_value (node_js n)) ''position'' = position_n n"
    unfolding node_js_def by (subst field_JSON_value) (simp_all add: is_json_JSON_value j)
  show "field (JSON_value (node_js n)) ''label'' = JUndefined"
    unfolding node_js_def by (subst field_JSON_value) simp_all
  show "field (JSON_value (node_js n)) ''config'' = JUndefined"
    unfolding node_js_def by (subst field_JSON_value) simp_all
  show "field (JSON_value (node_js n)) ''params'' = JUndefined"
    unfolding node_js_def by (subst field_JSON_value) simp_all
  show "field (JSON_value (node_js n)) ''integration_type_name'' = JUndefined"
    unfolding node_js_def by (subst field_JSON_value) simp_all
  show "field (JSON_value (node_js n)) ''task'' = JUndefined"
    unfolding node_js_def by (subst field_JSON_value) simp_all
  show "field (JSON_value (node_js n)) ''task_display_name'' = JUndefined"
    unfolding node_js_def by (subst field_JSON_value) simp_all
  have d: "field (JSON_value (node_js n)) ''data'' = JSON_value (JObj [
        (''label'', label (data_n n)),
        (''nodeType'', nodeType (data_n n)),
        (''config'', config (data_n n)),
        (''params'', params (data_n n)),
        (''integration_type_name'', integration_type_name (data_n n)),
        (''task'', task (data_n n)),
        (''task_display_name'', task_display_name (data_n n))])"
    unfolding node_js_def by (subst field_JSON_value) (simp_all del: JSON_value.simps)
  have nn: "\<And>kvs. \<not> nullish (JSON_value (JObj kvs))" by (simp add: nullish_def)
  show "oget (field (JSON_value (node_js n)) ''data'') ''label'' = label (data_n n)"
    unfolding d oget_def by (simp only: nn if_False, subst field_JSON_value)
      (simp_all add: is_json_JSON_value j)
  show "oget (field (JSON_value (node_js n)) ''data'') ''config'' = config (data_n n)"
    unfolding d oget_def by (simp only: nn if_False, subst field_JSON_value)
      (simp_all add: is_json_JSON_value j)
qed

lemma reread_node:
  assumes "canonical_node n"
  shows "normalize_node (JSON_value (node_js n)) = Some (reread n)"
proof -
  note r = node_js_read[OF assms]
  from assms obtain key where k: "String_js (type_n n) = Some key" "nodeTypes_at key"
    by (auto simp: canonical_node_def split: option.splits)
  from assms have t: "truthy (type_n n)" "truthy (label (data_n n))" "truthy (config (data_n n))"
    "truthy (position_n n)"
    by (simp_all add: canonical_node_def)
  show ?thesis
    unfolding normalize_node_def get_def Let_def
    by (simp add: r k t or_js_def reread_def)
qed

lemma process_edge_label:
  assumes "process_edge ns idx e = Some e'"
  shows "(if truthy (field e ''label'') then Some (field e ''label'')
          else if truthy (oget (field e ''condition'') ''value'')
          then map_option (\<lambda>s. JStr (toUpperCase s))
                  (String_js (field (field e ''condition'') ''value''))
          else Some (JStr [])) = Some (label_e e')"
proof -
  from assms obtain s0 src tgt h l where
    d: "(if truthy (field e ''label'') then Some (field e ''label'')
           else if truthy (oget (field e ''condition'') ''value'')
           then map_option (\<lambda>s. JStr (toUpperCase s))
                  (String_js (field (field e ''condition'') ''value''))
           else Some (JStr [])) = Some l"
    and r: "e' = \<lparr> id_e = or_js (field e ''id'') (JStr (''e-'' @ string_of_nat idx)),
            source = src, target = tgt, sourceHandle = h, label_e = l \<rparr>"
    unfolding process_edge_def Let_def
    by (auto simp only: bind_eq_Some_conv option.inject)
  from d r show ?thesis by simp
qed

lemma resolve_handle_written:
  assumes "resolve_handle dec e = Some h" and "is_json e"
  shows "written h"
proof -
  have a: "written (field e ''sourceHandle'')" by (rule written_field[OF assms(2)])
  have b: "truthy (oget (field e ''condition'') ''value'') \<Longrightarrow>
           written (field (field e ''condition'') ''value'')"
    using written_oget[OF written_field[OF assms(2)], of "''condition''" "''value''"]
    by (auto simp: oget_def split: if_splits)
  have c: "written (JStr ''true'')" "written (JStr ''false'')" by (simp_all add: written_def)
  from assms(1) show ?thesis
    unfolding resolve_handle_def Let_def
    using a b c by (auto simp: bind_eq_Some_conv split: if_splits)
qed

lemma resolve_handle_label_stringable:
  "resolve_handle True e = Some h \<Longrightarrow> truthy (field e ''label'') \<Longrightarrow> String_js (field e ''label'') \<noteq> None"
  unfolding resolve_handle_def Let_def by (auto simp: bind_eq_Some_conv)

lemma process_edge_canonical:
  assumes "process_edge ns idx raw = Some e" and "is_json raw"
  shows "canonical_edge e"
    and "isDecision (find (\<lambda>n. id_n n = source e) ns) \<Longrightarrow> String_js (label_e e) \<noteq> None"
proof -
  note f = written_field[OF assms(2)]
  note d = process_edge_SomeD[OF assms(1)]
  note l = process_edge_label[OF assms(1)]
  have i: "truthy (id_e e) \<and> is_json (id_e e)"
    unfolding d(5) using or_js_json[OF f, of "JStr (''e-'' @ string_of_nat idx)" "''id''"] by simp
  have h: "written (sourceHandle e)" by (rule resolve_handle_written[OF d(4) assms(2)])
  have lab: "is_json (label_e e) \<and> (truthy (label_e e) \<or> label_e e = JStr [])"
  proof (cases "truthy (field raw ''label'')")
    case True
    with l have "label_e e = field raw ''label''" by simp
    with True truthy_written[OF True f] show ?thesis by simp
  next
    case False
    with l have "\<exists>s. JStr s = label_e e" by (auto split: if_splits)
    then obtain s where "label_e e = JStr s" by metis
    then show ?thesis by (cases s) simp_all
  qed
  from i h lab show "canonical_edge e" by (simp add: canonical_edge_def)
  show "String_js (label_e e) \<noteq> None" if dec: "isDecision (find (\<lambda>n. id_n n = source e) ns)"
  proof (cases "truthy (field raw ''label'')")
    case True
    with l have eq: "label_e e = field raw ''label''" by simp
    from d(4) dec have "resolve_handle True raw = Some (sourceHandle e)" by simp
    from resolve_handle_label_stringable[OF this True] eq show ?thesis by simp
  next
    case False
    with l have "\<exists>s. JStr s = label_e e" by (auto split: if_splits)
    then obtain s where "label_e e = JStr s" by metis
    then show ?thesis by simp
  qed
qed

lemma edge_js_read:
  assumes "canonical_edge e"
  shows "\<not> nullish (JSON_value (edge_js e))"
    and "field (JSON_value (edge_js e)) ''id'' = id_e e"
    and "field (JSON_value (edge_js e)) ''source'' = JStr (source e)"
    and "field (JSON_value (edge_js e)) ''target'' = JStr (target e)"
    and "field (JSON_value (edge_js e)) ''sourceHandle'' = sourceHandle e"
    and "field (JSON_value (edge_js e)) ''label'' = label_e e"
    and "field (JSON_value (edge_js e)) ''from'' = JUndefined"
    and "field (JSON_value (edge_js e)) ''to'' = JUndefined"
    and "field (JSON_value (edge_js e)) ''condition'' = JUndefined"
proof -
  from assms have j: "is_json (id_e e)" "is_json (label_e e)" "written (sourceHandle e)"
    by (simp_all add: canonical_edge_def)
  show "\<not> nullish (JSON_value (edge_js e))" by (simp add: edge_js_def nullish_def)
  show "field (JSON_value (edge_js e)) ''id'' = id_e e"
    unfolding edge_js_def by (subst field_JSON_value) (simp_all add: is_json_JSON_value j)
  show "field (JSON_value (edge_js e)) ''source'' = JStr (source e)"
    unfolding edge_js_def by (subst field_JSON_value) simp_all
  show "field (JSON_value (edge_js e)) ''target'' = JStr (target e)"
    unfolding edge_js_def by (subst field_JSON_value) simp_all
  have "field (JSON_value (edge_js e)) ''sourceHandle'' =
          (if sourceHandle e = JUndefined then JUndefined else JSON_value (sourceHandle e))"
    unfolding edge_js_def by (subst field_JSON_value) simp_all
  with written_JSON_value[OF j(3)]
  show "field (JSON_value (edge_js e)) ''sourceHandle'' = sourceHandle e"
    by simp
  show "field (JSON_value (edge_js e)) ''label'' = label_e e"
    unfolding edge_js_def by (subst field_JSON_value) (simp_all add: is_json_JSON_value j)
  show "field (JSON_value (edge_js e)) ''from'' = JUndefined"
    unfolding edge_js_def by (subst field_JSON_value) simp_all
  show "field (JSON_value (edge_js e)) ''to'' = JUndefined"
    unfolding edge_js_def by (subst field_JSON_value) simp_all
  show "field (JSON_value (edge_js e)) ''condition'' = JUndefined"
    unfolding edge_js_def by (subst field_JSON_value) simp_all
qed

lemma oget_undefined: "oget JUndefined k = JUndefined"
  by (simp add: oget_def)

lemma reread_edge:
  assumes "canonical_edge e" and "source e \<noteq> []" and "target e \<noteq> []"
    and "isDecision (find (\<lambda>n. id_n n = source e) ms) \<Longrightarrow> String_js (label_e e) \<noteq> None"
  shows "\<exists>e'. process_edge ms idx (JSON_value (edge_js e)) = Some e' \<and> id_e e' = id_e e \<and>
           source e' = source e \<and> target e' = target e \<and> label_e e' = label_e e"
proof -
  note r = edge_js_read[OF assms(1)]
  from assms(1) have t: "truthy (id_e e)" and l: "truthy (label_e e) \<or> label_e e = JStr []"
    by (simp_all add: canonical_edge_def)
  have "\<exists>h. resolve_handle (isDecision (find (\<lambda>n. id_n n = source e) ms)) (JSON_value (edge_js e)) = Some h"
    unfolding resolve_handle_def Let_def using assms(4)
    by (auto simp: r)
  then obtain h where h: "resolve_handle (isDecision (find (\<lambda>n. id_n n = source e) ms)) (JSON_value (edge_js e)) = Some h"
    by blast
  show ?thesis
    unfolding process_edge_def Let_def get_def
    using assms(2,3) t l h by (auto simp: r or_js_def oget_undefined)
qed

lemma decision_kind_passes_test:
  assumes "normalize_node raw = Some n"
    and "type_n n = JStr ''condition'' \<or> type_n n = JStr ''control''"
  shows "isDecision (Some n)"
proof (cases "truthy (field raw ''type'')")
  case True
  from tagged_decision_iff[OF assms(1) True] assms(2) show ?thesis by simp
next
  case False
  with normalize_node_SomeD(3)[OF assms(1)] have "type_n n = JStr ''default''"
    by (auto simp: or_js_def)
  with assms(2) show ?thesis by simp
qed

lemma select_raw_json:
  assumes "is_json g" and "select_raw g = Some (rn, re)"
  shows "is_json rn \<and> is_json re"
proof (cases "truthy (field g ''workflows'') \<and> truthy (index0 (field g ''workflows''))")
  case True
  let ?w = "field (index0 (field g ''workflows'')) ''workflow_data''"
  from True assms(1) have "is_json (index0 (field g ''workflows''))"
    by (metis is_json_field is_json_index0 truthy_defined)
  moreover from True assms(2) have nn: "\<not> nullish ?w"
    by (auto simp: select_raw_def get_def Let_def split: if_splits)
  ultimately have w: "is_json ?w"
    by (metis is_json_field nullish_def)
  from True assms(2) nn have "rn = or_js (field ?w ''nodes'') (JArr [])"
    "re = or_js (field ?w ''connections'') (JArr [])"
    by (auto simp: select_raw_def get_def Let_def)
  with or_js_json[OF written_field[OF w], of "JArr []"] show ?thesis by simp
next
  case False
  with assms(2) have "rn = or_js (field g ''nodes'') (JArr [])"
    "re = or_js (field g ''edges'') (JArr [])"
    by (auto simp: select_raw_def)
  with or_js_json[OF written_field[OF assms(1)], of "JArr []"] show ?thesis by simp
qed

lemma select_raw_graph_js:
  "select_raw (JSON_value (graph_js (ns, es))) =
     Some (JArr (map (\<lambda>n. JSON_value (node_js n)) ns), JArr (map (\<lambda>e. JSON_value (edge_js e)) es))"
proof -
  have n: "\<And>n. node_js n \<noteq> JUndefined" by (simp add: node_js_def)
  have e: "\<And>e. edge_js e \<noteq> JUndefined" by (simp add: edge_js_def)
  have a: "JSON_value (JArr (map node_js ns)) = JArr (map (\<lambda>n. JSON_value (node_js n)) ns)"
    by (simp add: n comp_def del: JSON_value.simps(2))
  have b: "JSON_value (JArr (map edge_js es)) = JArr (map (\<lambda>e. JSON_value (edge_js e)) es)"
    by (simp add: e comp_def del: JSON_value.simps(2))
  have "JSON_value (graph_js (ns, es)) =
          JObj [(''nodes'', JSON_value (JArr (map node_js ns))),
                (''edges'', JSON_value (JArr (map edge_js es)))]"
    by (simp add: graph_js_def del: JSON_value.simps(1))
  then show ?thesis
    unfolding a b by (simp add: select_raw_def or_js_def)
qed

lemma find_reread:
  "find (\<lambda>m. id_n m = s) (map reread ns) = map_option reread (find (\<lambda>m. id_n m = s) ns)"
  by (induction ns) (simp_all add: reread_def)

lemma isDecision_reread:
  "isDecision (Some (reread n)) \<longleftrightarrow> type_n n = JStr ''condition'' \<or> type_n n = JStr ''control''"
  by (simp add: isDecision_def reread_def)

text \<open>
  C4, amended. \<open>downloadJson\<close> serializes the raw graph as it was received, so the
  download of a JSON graph is that graph, and normalizing it again gives the canonical
  graph again. The canonical graph itself, serialized and normalized again, keeps the
  order and number of nodes and edges, the node ids, kinds, labels, configuration maps
  and positions, and the edge ids, endpoints and labels, provided no edge endpoint is the
  empty string (an empty \<open>source\<close> is falsy at line 107 and reads back as \<open>undefined\<close>).
  Parameters, domain hints, \<open>data.nodeType\<close> and the branch handles are not part of what
  is kept.
\<close>

theorem reexport_preserves:
  assumes "truthy g" and "is_json g" and "normalize g = Some (ns, es)"
    and "\<forall>e\<in>set es. source e \<noteq> [] \<and> target e \<noteq> []"
  shows "downloadJson g = Some g \<and>
         (\<exists>ns' es'. normalize (JSON_value (graph_js (ns, es))) = Some (ns', es') \<and>
            map id_n ns' = map id_n ns \<and> map type_n ns' = map type_n ns \<and>
            map (label \<circ> data_n) ns' = map (label \<circ> data_n) ns \<and>
            map (config \<circ> data_n) ns' = map (config \<circ> data_n) ns \<and>
            map position_n ns' = map position_n ns \<and>
            map id_e es' = map id_e es \<and> map source es' = map source es \<and>
            map target es' = map target es \<and> map label_e es' = map label_e es)"
proof -
  from assms(1,2) have dl: "downloadJson g = Some g"
    by (simp add: downloadJson_def is_json_JSON_value)
  from assms(3) obtain rn re where
    sel: "select_raw g = Some (JArr rn, JArr re)"
    and ln: "length ns = length rn"
    and nn: "\<forall>i<length rn. normalize_node (rn ! i) = Some (ns ! i)"
    and le: "length es = length re"
    and ee: "\<forall>i<length re. process_edge ns i (re ! i) = Some (es ! i)"
    by (auto simp: normalize_Some_iff)
  from select_raw_json[OF assms(2) sel] have jr: "list_all is_json rn" "list_all is_json re"
    by simp_all
  have cn: "canonical_node (ns ! i)" if "i < length ns" for i
    using that nn ln jr(1) normalize_node_canonical[of "rn ! i" "ns ! i"]
    by (simp add: list_all_length)
  have dk: "isDecision (Some (ns ! i))"
    if "i < length ns" "type_n (ns ! i) = JStr ''condition'' \<or> type_n (ns ! i) = JStr ''control''" for i
    using that nn ln decision_kind_passes_test[of "rn ! i" "ns ! i"] by simp
  define ns' where "ns' = map reread ns"
  have n': "\<forall>i<length ns. normalize_node (JSON_value (node_js (ns ! i))) = Some (ns' ! i)"
    using cn by (simp add: ns'_def reread_node)
  have dec: "isDecision (find (\<lambda>m. id_n m = s) ns)" if "isDecision (find (\<lambda>m. id_n m = s) ns')" for s
  proof (cases "find (\<lambda>m. id_n m = s) ns")
    case None
    with that show ?thesis by (simp add: ns'_def find_reread)
  next
    case (Some m)
    then obtain i where i: "i < length ns" "m = ns ! i" by (auto simp: find_Some_iff)
    from that Some have "type_n m = JStr ''condition'' \<or> type_n m = JStr ''control''"
      by (simp add: ns'_def find_reread isDecision_reread)
    with dk[OF i(1)] i(2) Some show ?thesis by simp
  qed
  have ex: "\<exists>e'. process_edge ns' i (JSON_value (edge_js (es ! i))) = Some e' \<and> id_e e' = id_e (es ! i) \<and>
           source e' = source (es ! i) \<and> target e' = target (es ! i) \<and> label_e e' = label_e (es ! i)"
    if i: "i < length es" for i
  proof (rule reread_edge)
    from i le ee have p: "process_edge ns i (re ! i) = Some (es ! i)" by simp
    from i le jr(2) have j: "is_json (re ! i)" by (simp add: list_all_length)
    from process_edge_canonical(1)[OF p j] show "canonical_edge (es ! i)" .
    from assms(4) i show "source (es ! i) \<noteq> []" "target (es ! i) \<noteq> []" by simp_all
    assume "isDecision (find (\<lambda>n. id_n n = source (es ! i)) ns')"
    from process_edge_canonical(2)[OF p j dec[OF this]]
    show "String_js (label_e (es ! i)) \<noteq> None" .
  qed
  define es' where "es' = map (\<lambda>i. the (process_edge ns' i (JSON_value (edge_js (es ! i))))) [0..<length es]"
  have e': "process_edge ns' i (JSON_value (edge_js (es ! i))) = Some (es' ! i) \<and> id_e (es' ! i) = id_e (es ! i) \<and>
           source (es' ! i) = source (es ! i) \<and> target (es' ! i) = target (es ! i) \<and>
           label_e (es' ! i) = label_e (es ! i)"
    if i: "i < length es" for i
    using ex[OF i] i by (auto simp: es'_def)
  have len': "length ns' = length ns" "length es' = length es"
    by (simp_all add: ns'_def es'_def)
  have norm: "normalize (JSON_value (graph_js (ns, es))) = Some (ns', es')"
    unfolding normalize_Some_iff select_raw_graph_js
    using n' e' len' by simp
  have nodes_eq: "map id_n ns' = map id_n ns" "map type_n ns' = map type_n ns"
    "map (label \<circ> data_n) ns' = map (label \<circ> data_n) ns"
    "map (config \<circ> data_n) ns' = map (config \<circ> data_n) ns"
    "map position_n ns' = map position_n ns"
    by (simp_all add: ns'_def reread_def comp_def)
  have edges_eq: "map id_e es' = map id_e es" "map source es' = map source es"
    "map target es' = map target es" "map label_e es' = map label_e es"
    using e' len' by (simp_all add: list_eq_iff_nth_eq)
  from dl norm nodes_eq edges_eq show ?thesis by blast
qed

theorem reexport_preserves_witness:
  "truthy sample_graph \<and> is_json sample_graph \<and>
   normalize sample_graph = Some ([sample_condition, sample_action], [bare_edge_out]) \<and>
   downloadJson sample_graph = Some sample_graph \<and>
   (\<exists>ns' es'. normalize (JSON_value (graph_js ([sample_condition, sample_action], [bare_edge_out])))
        = Some (ns', es') \<and>
      map id_n ns' = [''1'', ''2''] \<and> map type_n ns' = [JStr ''condition'', JStr ''action''] \<and>
      map id_e es' = [JStr ''e-0''] \<and> map source es' = [''1''] \<and> map target es' = [''2''])"
proof -
  have h1: "truthy sample_graph" by (simp add: sample_graph_def)
  have h2: "is_json sample_graph" by (simp add: sample_graph_def bare_edge_def)
  have h3: "normalize sample_graph = Some ([sample_condition, sample_action], [bare_edge_out])"
    by (rule normalize_sample_graph)
  have h4: "\<forall>e\<in>set [bare_edge_out]. source e \<noteq> [] \<and> target e \<noteq> []"
    by (simp add: bare_edge_out_def)
  from reexport_preserves[OF h1 h2 h3 h4] obtain ns' es' where
    d: "downloadJson sample_graph = Some sample_graph"
    and n: "normalize (JSON_value (graph_js ([sample_condition, sample_action], [bare_edge_out])))
              = Some (ns', es')"
    and m: "map id_n ns' = map id_n [sample_condition, sample_action]"
      "map type_n ns' = map type_n [sample_condition, sample_action]"
      "map id_e es' = map id_e [bare_edge_out]"
      "map source es' = map source [bare_edge_out]"
      "map target es' = map target [bare_edge_out]"
    by blast
  from m have "map id_n ns' = [''1'', ''2'']" "map type_n ns' = [JStr ''condition'', JStr ''action'']"
    "map id_e es' = [JStr ''e-0'']" "map source es' = [''1'']" "map target es' = [''2'']"
    by (simp_all add: sample_condition_def sample_action_def bare_edge_out_def)
  with n d h1 h2 h3 show ?thesis by auto
qed

end
